theory Spec2Isabelle
  imports Complex_Main
begin

section \<open>Numbers of the array library\<close>

text \<open>
  The notebook computes with numpy scalars. A float64 is modelled as a real number or
  one of the three special values. The scores and the quotients of the rates are exact
  reals; where the EER cell goes on computing with the rates and branches on the result,
  every operation rounds to float64 (\<open>f64\<close> below). Integer counts are unbounded (an
  int64 count of array elements cannot overflow here, and it is a float64 value).
\<close>

datatype npfloat = Finite real | PInf | NInf | NaN

text \<open>
  \<^verbatim>\<open>n / d\<close> for a numpy integer scalar \<open>n\<close>: true division. Division by zero
  does not raise; it gives an infinity, or NaN for \<open>0 / 0\<close>, with a warning.
\<close>

definition np_true_divide :: "int \<Rightarrow> int \<Rightarrow> npfloat" where
  "np_true_divide n d =
     (if d \<noteq> 0 then Finite (real_of_int n / real_of_int d)
      else if n > 0 then PInf
      else if n < 0 then NInf
      else NaN)"

fun np_neg :: "npfloat \<Rightarrow> npfloat" where
  "np_neg (Finite a) = Finite (- a)"
| "np_neg PInf = NInf"
| "np_neg NInf = PInf"
| "np_neg NaN = NaN"

fun np_add :: "npfloat \<Rightarrow> npfloat \<Rightarrow> npfloat" where
  "np_add NaN y = NaN"
| "np_add x NaN = NaN"
| "np_add (Finite a) (Finite b) = Finite (a + b)"
| "np_add PInf NInf = NaN"
| "np_add NInf PInf = NaN"
| "np_add PInf y = PInf"
| "np_add x PInf = PInf"
| "np_add NInf y = NInf"
| "np_add x NInf = NInf"

definition np_sub :: "npfloat \<Rightarrow> npfloat \<Rightarrow> npfloat" where
  "np_sub x y = np_add x (np_neg y)"

fun np_abs :: "npfloat \<Rightarrow> npfloat" where
  "np_abs (Finite a) = Finite \<bar>a\<bar>"
| "np_abs PInf = PInf"
| "np_abs NInf = PInf"
| "np_abs NaN = NaN"

fun np_half :: "npfloat \<Rightarrow> npfloat" where
  "np_half (Finite a) = Finite (a / 2)"
| "np_half x = x"

text \<open>Comparisons: every comparison with NaN is false.\<close>

fun np_lt :: "npfloat \<Rightarrow> npfloat \<Rightarrow> bool" where
  "np_lt NaN y = False"
| "np_lt x NaN = False"
| "np_lt (Finite a) (Finite b) = (a < b)"
| "np_lt x NInf = False"
| "np_lt PInf y = False"
| "np_lt NInf y = True"
| "np_lt x PInf = True"

fun np_le :: "npfloat \<Rightarrow> npfloat \<Rightarrow> bool" where
  "np_le NaN y = False"
| "np_le x NaN = False"
| "np_le (Finite a) (Finite b) = (a \<le> b)"
| "np_le NInf y = True"
| "np_le x PInf = True"
| "np_le x NInf = False"
| "np_le PInf y = False"

text \<open>
  Rounding to float64: to the nearest value with a 53-bit significand, a tie going to the
  even significand; below \<open>2^-1022\<close> the spacing stays \<open>2^-1074\<close>, and a result of
  magnitude \<open>2^1024\<close> or more is an infinity. The sign of zero is not modelled.
\<close>

definition round_half_even :: "real \<Rightarrow> int" where
  "round_half_even m =
     (let f = \<lfloor>m\<rfloor>
      in if m - of_int f < 1 / 2 then f
         else if m - of_int f > 1 / 2 then f + 1
         else if even f then f else f + 1)"

definition f64 :: "real \<Rightarrow> npfloat" where
  "f64 x =
     (if x = 0 then Finite 0
      else
        let e = max \<lfloor>log 2 \<bar>x\<bar>\<rfloor> (- 1022);
            u = 2 powi (e - 52);
            y = of_int (round_half_even (\<bar>x\<bar> / u)) * u
        in if y \<ge> 2 ^ 1024 then (if x > 0 then PInf else NInf)
           else Finite (sgn x * y))"

text \<open>The float64 that holds the result of an operation whose exact result is \<open>x\<close>.\<close>

fun np_round :: "npfloat \<Rightarrow> npfloat" where
  "np_round (Finite a) = f64 a"
| "np_round x = x"

section \<open>GMM-ML scoring\<close>

text \<open>
  The two trained machines \<open>gmm_nat\<close> and \<open>gmm_synt\<close> belong to an external library.
  A call \<^verbatim>\<open>gmm_nat(mfcc)\<close> either returns the log-likelihood or raises one of the
  library's exceptions (type \<open>'e\<close>); the notebook catches nothing.

  \<^verbatim>\<open>gmm_nat(mfcc)-gmm_synt(mfcc)\<close>: the left operand is evaluated first.
\<close>

definition llr :: "('f \<Rightarrow> 'e + real) \<Rightarrow> ('f \<Rightarrow> 'e + real) \<Rightarrow> 'f \<Rightarrow> 'e + real" where
  "llr gmm_nat gmm_synt mfcc =
     (case gmm_nat mfcc of
        Inl e \<Rightarrow> Inl e
      | Inr a \<Rightarrow> (case gmm_synt mfcc of
                    Inl e \<Rightarrow> Inl e
                  | Inr b \<Rightarrow> Inr (a - b)))"

datatype 'e failure = Raised 'e | IndexError

text \<open>\<^verbatim>\<open>a[i] = v\<close> on a numpy array with \<open>i \<ge> 0\<close>.\<close>

definition np_store :: "real list \<Rightarrow> nat \<Rightarrow> real \<Rightarrow> 'e failure + real list" where
  "np_store a i v = (if i < length a then Inr (a[i := v]) else Inl IndexError)"

text \<open>The variables of the scoring cell that the loop body can see and assign.\<close>

record scoring_state =
  llr_gmm_score :: "real list"
  z_gmm :: "real list"
  k :: nat
  thr :: real

text \<open>\<^verbatim>\<open>int(x > 0)\<close>, stored into a float array.\<close>

definition predict :: "real \<Rightarrow> real" where
  "predict x = (if x > 0 then 1 else 0)"

text \<open>
  The body of the inner loop from the likelihood-ratio line on:
  \<^verbatim>\<open>
  llr_gmm_score[k] = gmm_nat(mfcc)-gmm_synt(mfcc)
  z_gmm[k] = int(llr_gmm_score[k]>0)
  k += 1
  \<close>
\<close>

definition score_sample ::
  "('f \<Rightarrow> 'e + real) \<Rightarrow> ('f \<Rightarrow> 'e + real) \<Rightarrow> 'f \<Rightarrow> scoring_state \<Rightarrow> 'e failure + scoring_state" where
  "score_sample gmm_nat gmm_synt mfcc st =
     (case llr gmm_nat gmm_synt mfcc of
        Inl e \<Rightarrow> Inl (Raised e)
      | Inr v \<Rightarrow>
          (case np_store (llr_gmm_score st) (k st) v of
             Inl e \<Rightarrow> Inl e
           | Inr scores \<Rightarrow>
               (case np_store (z_gmm st) (k st) (predict (scores ! k st)) of
                  Inl e \<Rightarrow> Inl e
                | Inr zs \<Rightarrow>
                    Inr (st\<lparr>llr_gmm_score := scores, z_gmm := zs, k := k st + 1\<rparr>))))"

text \<open>
  The two nested \<^verbatim>\<open>for\<close> loops visit every row of the ground-truth table once;
  \<open>mfccs\<close> is the list of feature matrices in the order of the visits. An exception
  ends the cell.
\<close>

fun scoring_loop ::
  "('f \<Rightarrow> 'e + real) \<Rightarrow> ('f \<Rightarrow> 'e + real) \<Rightarrow> 'f list \<Rightarrow> scoring_state \<Rightarrow> 'e failure + scoring_state" where
  "scoring_loop gmm_nat gmm_synt [] st = Inr st"
| "scoring_loop gmm_nat gmm_synt (mfcc # mfccs) st =
     (case score_sample gmm_nat gmm_synt mfcc st of
        Inl e \<Rightarrow> Inl e
      | Inr st' \<Rightarrow> scoring_loop gmm_nat gmm_synt mfccs st')"

text \<open>
  The state before the loop:
  \<^verbatim>\<open>
  llr_gmm_score = np.zeros(len(ground_truth),)
  z_gmm = np.zeros(len(ground_truth),)
  k = 0
  thr = .5
  \<close>
\<close>

definition scoring_init :: "nat \<Rightarrow> scoring_state" where
  "scoring_init n =
     \<lparr>llr_gmm_score = replicate n 0, z_gmm = replicate n 0, k = 0, thr = 0.5\<rparr>"

definition scoring_cell ::
  "('f \<Rightarrow> 'e + real) \<Rightarrow> ('f \<Rightarrow> 'e + real) \<Rightarrow> 'f list \<Rightarrow> 'e failure + scoring_state" where
  "scoring_cell gmm_nat gmm_synt mfccs =
     scoring_loop gmm_nat gmm_synt mfccs (scoring_init (length mfccs))"

section \<open>Error rates and the EER cell\<close>

text \<open>
  A row of the ground-truth table after scoring: its \<open>source\<close> column (\<open>human\<close> or
  \<open>spoof\<close>) and its \<open>score_gmm\<close> column, which is \<open>llr_gmm_score\<close> row by row.
\<close>

record sample =
  source :: string
  score_gmm :: real

text \<open>The column \<open>z\<close>: \<^verbatim>\<open>ground_truth.source.map(lambda x: int(x=='human'))\<close>.\<close>

definition z_of :: "string \<Rightarrow> int" where
  "z_of x = (if x = ''human'' then 1 else 0)"

text \<open>\<^verbatim>\<open>pz[np.array(ground_truth.z)==v]\<close>: the scores of the rows whose \<open>z\<close> is \<open>v\<close>.\<close>

definition select :: "int \<Rightarrow> sample list \<Rightarrow> real list" where
  "select v rows = map score_gmm (filter (\<lambda>r. z_of (source r) = v) rows)"

record rates =
  fnr :: npfloat
  fpr :: npfloat

text \<open>
  The rates of the EER cell at a threshold \<open>t\<close>:
  \<^verbatim>\<open>
  spoofed = pz[np.array(ground_truth.z)==1]
  humans = pz[np.array(ground_truth.z)==0]
  fnr = 100*(humans>thr).sum()/len(humans)
  fpr = 100*(spoofed<=thr).sum()/len(spoofed)
  \<close>
\<close>

definition estimate :: "real \<Rightarrow> sample list \<Rightarrow> rates" where
  "estimate t rows =
     (let spoofed = select 1 rows;
          humans = select 0 rows
      in \<lparr>fnr = np_true_divide (100 * int (length (filter (\<lambda>x. x > t) humans)))
                                (int (length humans)),
          fpr = np_true_divide (100 * int (length (filter (\<lambda>x. x \<le> t) spoofed)))
                                (int (length spoofed))\<rparr>)"

text \<open>
  The quotients of \<open>estimate\<close> are exact. The cell holds them as float64, and the rest of
  the cell computes with what it holds:
  \<^verbatim>\<open>
  print("False negative vs positive rates %:", fnr, fpr)
  print("FNR - FPR %:", fnr-fpr)
  if np.abs(fnr-fpr) <.25:
      print("EER =", (fnr+fpr)/2,"%")
  else:
      print("EER ~", (fnr+fpr)/2,"%")
  \<close>
  The report records what is printed: the two rates, their difference, whether the label
  is \<open>EER =\<close> (\<open>exact\<close>), and the value after the label. Every operation rounds its exact
  result to float64.
\<close>

record eer_report =
  shown_fnr :: npfloat
  shown_fpr :: npfloat
  shown_diff :: npfloat
  exact :: bool
  eer :: npfloat

definition eer_at :: "real \<Rightarrow> sample list \<Rightarrow> eer_report" where
  "eer_at t rows =
     (let r = estimate t rows;
          fnr64 = np_round (fnr r);
          fpr64 = np_round (fpr r);
          diff = np_round (np_sub fnr64 fpr64)
      in \<lparr>shown_fnr = fnr64, shown_fpr = fpr64,
          shown_diff = diff,
          exact = np_lt (np_abs diff) (Finite 0.25),
          eer = np_round (np_half (np_round (np_add fnr64 fpr64)))\<rparr>)"

section \<open>ROC AUC\<close>

text \<open>
  Modelled from the spec: the credit of one pair in the rank-based ROC-AUC, which belongs to
  \<open>roc_auc_score\<close> below. A sample labelled 1 with score \<open>p\<close> against a sample labelled 0
  with score \<open>n\<close> counts 1 when it has the higher score and one half on a tie.
\<close>

definition rank_credit :: "real \<Rightarrow> real \<Rightarrow> real" where
  "rank_credit p n = (if p > n then 1 else if p = n then 1 / 2 else 0)"

text \<open>
  Modelled from the spec: \<open>roc_auc_score\<close> is imported from a metrics library and its code
  is not part of the repository. The spec calls it the "standard rank-based ROC-AUC over the
  two label classes": over all pairs of a sample labelled 1 and a sample labelled 0, the
  fraction in which the first has the higher score, a tie counting one half. With only one
  class present there is no value (the library raises).
\<close>

definition roc_auc_score :: "int list \<Rightarrow> real list \<Rightarrow> real option" where
  "roc_auc_score y_true y_score =
     (let pos = map snd (filter (\<lambda>ys. fst ys = 1) (zip y_true y_score));
          neg = map snd (filter (\<lambda>ys. fst ys = 0) (zip y_true y_score))
      in if pos = [] \<or> neg = [] then None
         else Some ((\<Sum>p\<leftarrow>pos. \<Sum>n\<leftarrow>neg. rank_credit p n)
                    / (real (length pos) * real (length neg))))"

text \<open>
  The call of the scoring cell, \<^verbatim>\<open>roc_auc_score(ground_truth.z, ground_truth.z_gmm)\<close>.
  The column \<open>z_gmm\<close> is the array \<open>z_gmm\<close> of the loop, row by row
  \<^verbatim>\<open>int(llr_gmm_score[k]>0)\<close>.
\<close>

definition roc_auc :: "sample list \<Rightarrow> real option" where
  "roc_auc rows =
     roc_auc_score (map (\<lambda>r. z_of (source r)) rows) (map (\<lambda>r. predict (score_gmm r)) rows)"

section \<open>The specification's wording\<close>

text \<open>
  The following definitions follow the sentences of the specification, to be compared
  with the cells above. \<open>labeled l rows\<close> are the scores of the samples labelled \<open>l\<close>.
\<close>

definition labeled :: "string \<Rightarrow> sample list \<Rightarrow> real list" where
  "labeled l rows = map score_gmm (filter (\<lambda>r. source r = l) rows)"

text \<open>\<open>fnr = 100 \<times> |{s \<in> human-labeled : score(s) \<le> threshold}| / |human-labeled|\<close>\<close>

definition spec_fnr :: "real \<Rightarrow> real list \<Rightarrow> real" where
  "spec_fnr t human_scores =
     100 * real (length (filter (\<lambda>x. x \<le> t) human_scores)) / real (length human_scores)"

text \<open>\<open>fpr = 100 \<times> |{s \<in> spoof-labeled : score(s) > threshold}| / |spoof-labeled|\<close>\<close>

definition spec_fpr :: "real \<Rightarrow> real list \<Rightarrow> real" where
  "spec_fpr t spoof_scores =
     100 * real (length (filter (\<lambda>x. x > t) spoof_scores)) / real (length spoof_scores)"

text \<open>\<open>roc_auc\<close>: the rank-based ROC-AUC "from the per-sample LLR scores".\<close>

definition spec_roc_auc :: "sample list \<Rightarrow> real option" where
  "spec_roc_auc rows =
     roc_auc_score (map (\<lambda>r. z_of (source r)) rows) (map score_gmm rows)"

section \<open>Example data\<close>

text \<open>The example of the specification: \<open>{h1:0.6, h2:0.4, s1:-0.3, s2:0.1}\<close>.\<close>

definition example_scores :: "sample list" where
  "example_scores =
     [\<lparr>source = ''human'', score_gmm = 0.6\<rparr>, \<lparr>source = ''human'', score_gmm = 0.4\<rparr>,
      \<lparr>source = ''spoof'', score_gmm = - 0.3\<rparr>, \<lparr>source = ''spoof'', score_gmm = 0.1\<rparr>]"


text \<open>Every human score above every spoof score, all of them negative.\<close>

definition separated_below_zero :: "sample list" where
  "separated_below_zero =
     [\<lparr>source = ''human'', score_gmm = - 0.1\<rparr>, \<lparr>source = ''human'', score_gmm = - 0.2\<rparr>,
      \<lparr>source = ''spoof'', score_gmm = - 0.3\<rparr>, \<lparr>source = ''spoof'', score_gmm = - 0.4\<rparr>]"

text \<open>
  A table of 112 spoof samples, one of them with a positive score, and 175 human samples,
  two of them with a negative score: at threshold 0 the rates are \<open>100/112\<close> and \<open>200/175\<close>,
  which differ by one quarter.
\<close>

definition quarter_apart :: "sample list" where
  "quarter_apart =
     replicate 111 \<lparr>source = ''spoof'', score_gmm = - 1\<rparr> @
     [\<lparr>source = ''spoof'', score_gmm = 1\<rparr>] @
     replicate 173 \<lparr>source = ''human'', score_gmm = 1\<rparr> @
     replicate 2 \<lparr>source = ''human'', score_gmm = - 1\<rparr>"


text \<open>A table with one sample of each class, the human one positive, the spoof one negative.\<close>

definition separated_at_zero :: "sample list" where
  "separated_at_zero =
     [\<lparr>source = ''human'', score_gmm = 0.6\<rparr>, \<lparr>source = ''spoof'', score_gmm = - 0.3\<rparr>]"

text \<open>
  Density models over feature matrices (lists of frames): one that accepts every matrix,
  two that read the matrix, one that raises on the empty matrix, and one more that accepts
  every matrix.
\<close>

definition flat_model :: "real list list \<Rightarrow> unit + real" where
  "flat_model mfcc = Inr 0"

definition sum_model :: "real list list \<Rightarrow> unit + real" where
  "sum_model mfcc = Inr (sum_list (concat mfcc))"

definition count_model :: "real list list \<Rightarrow> unit + real" where
  "count_model mfcc = Inr (real (length mfcc))"

definition strict_model :: "real list list \<Rightarrow> unit + real" where
  "strict_model mfcc = (if mfcc = [] then Inl () else Inr (sum_list (concat mfcc)))"

definition offset_model :: "real list list \<Rightarrow> unit + real" where
  "offset_model mfcc = Inr (real (length mfcc) + 2)"

text \<open>Two feature matrices, of one and of two frames.\<close>

definition two_utterances :: "real list list list" where
  "two_utterances = [[[3, 1]], [[- 2, 1], [0, 0]]]"

text \<open>The state after scoring them with \<open>sum_model\<close> against \<open>count_model\<close>.\<close>

definition two_scored :: scoring_state where
  "two_scored = \<lparr>llr_gmm_score = [3, - 3], z_gmm = [1, 0], k = 2, thr = 0.5\<rparr>"

section \<open>The scoring loop\<close>

lemma llr_Inr_iff:
  "llr gn gs m = Inr v \<longleftrightarrow> (\<exists>a b. gn m = Inr a \<and> gs m = Inr b \<and> v = a - b)"
  by (auto simp: llr_def split: sum.splits)

lemma score_sample_Inr_iff:
  "score_sample gn gs m st = Inr st' \<longleftrightarrow>
     (\<exists>v. llr gn gs m = Inr v \<and> k st < length (llr_gmm_score st) \<and> k st < length (z_gmm st) \<and>
          st' = st\<lparr>llr_gmm_score := (llr_gmm_score st)[k st := v],
                   z_gmm := (z_gmm st)[k st := predict v], k := k st + 1\<rparr>)"
  by (auto simp: score_sample_def np_store_def split: sum.splits if_splits)

text \<open>
  What a run of the loop that returns has done: it has advanced \<open>k\<close> by the number of
  samples, left \<open>thr\<close> and the slots below the old \<open>k\<close> alone, and filled the slots from
  the old \<open>k\<close> on, in order.
\<close>

lemma scoring_loop_Inr:
  "scoring_loop gn gs ms st = Inr st' \<Longrightarrow>
     k st' = k st + length ms \<and> thr st' = thr st \<and>
     length (llr_gmm_score st') = length (llr_gmm_score st) \<and>
     length (z_gmm st') = length (z_gmm st) \<and>
     (\<forall>j < k st. llr_gmm_score st' ! j = llr_gmm_score st ! j \<and> z_gmm st' ! j = z_gmm st ! j) \<and>
     (\<forall>i < length ms. llr gn gs (ms ! i) = Inr (llr_gmm_score st' ! (k st + i)) \<and>
          z_gmm st' ! (k st + i) = predict (llr_gmm_score st' ! (k st + i)))"
proof (induction ms arbitrary: st)
  case Nil
  then show ?case by simp
next
  case (Cons m ms)
  from Cons.prems obtain st1 where s1: "score_sample gn gs m st = Inr st1"
    and l1: "scoring_loop gn gs ms st1 = Inr st'"
    by (auto split: sum.splits)
  from s1 obtain v where v: "llr gn gs m = Inr v" "k st < length (llr_gmm_score st)"
    "k st < length (z_gmm st)"
    "st1 = st\<lparr>llr_gmm_score := (llr_gmm_score st)[k st := v],
                   z_gmm := (z_gmm st)[k st := predict v], k := k st + 1\<rparr>"
    unfolding score_sample_Inr_iff by blast
  note ih = Cons.IH [OF l1]
  have at_k: "llr_gmm_score st' ! k st = v" "z_gmm st' ! k st = predict v"
    using ih v by auto
  show ?case
  proof (intro conjI allI impI)
    fix i assume "i < length (m # ms)"
    then show "llr gn gs ((m # ms) ! i) = Inr (llr_gmm_score st' ! (k st + i))"
      using ih v at_k by (cases i) auto
  next
    fix i assume "i < length (m # ms)"
    then show "z_gmm st' ! (k st + i) = predict (llr_gmm_score st' ! (k st + i))"
      using ih v at_k by (cases i) auto
  qed (use ih v in auto)
qed

text \<open>The loop returns when both models return on every sample and the arrays have room.\<close>

lemma scoring_loop_returns:
  "\<forall>m\<in>set ms. (\<exists>a. gn m = Inr a) \<and> (\<exists>b. gs m = Inr b) \<Longrightarrow>
   k st + length ms \<le> length (llr_gmm_score st) \<Longrightarrow>
   k st + length ms \<le> length (z_gmm st) \<Longrightarrow>
   \<exists>st'. scoring_loop gn gs ms st = Inr st'"
proof (induction ms arbitrary: st)
  case Nil
  then show ?case by simp
next
  case (Cons m ms)
  from Cons.prems(1) obtain a b where ab: "gn m = Inr a" "gs m = Inr b"
    by auto
  then have v: "llr gn gs m = Inr (a - b)"
    by (simp add: llr_Inr_iff)
  define st1 where "st1 = st\<lparr>llr_gmm_score := (llr_gmm_score st)[k st := a - b],
                   z_gmm := (z_gmm st)[k st := predict (a - b)], k := k st + 1\<rparr>"
  have s1: "score_sample gn gs m st = Inr st1"
    unfolding score_sample_Inr_iff st1_def using v Cons.prems(2,3) by auto
  have "\<exists>st'. scoring_loop gn gs ms st1 = Inr st'"
    using Cons.prems by (intro Cons.IH) (auto simp: st1_def)
  with s1 show ?case by simp
qed

text \<open>The loop carries \<open>thr\<close> along without reading it.\<close>

lemma scoring_loop_thr:
  "scoring_loop gn gs ms (st\<lparr>thr := t\<rparr>)
     = map_sum id (\<lambda>s. s\<lparr>thr := t\<rparr>) (scoring_loop gn gs ms st)"
proof (induction ms arbitrary: st)
  case Nil
  then show ?case by simp
next
  case (Cons m ms)
  have step: "score_sample gn gs m (st\<lparr>thr := t\<rparr>)
                = map_sum id (\<lambda>s. s\<lparr>thr := t\<rparr>) (score_sample gn gs m st)"
    by (simp add: score_sample_def np_store_def split: sum.splits)
  show ?case
  proof (cases "score_sample gn gs m st")
    case (Inl e)
    with step show ?thesis by simp
  next
    case (Inr st1)
    with step Cons.IH [of st1] show ?thesis by simp
  qed
qed

lemma two_cell: "scoring_cell sum_model count_model two_utterances = Inr two_scored"
  by (simp add: scoring_cell_def scoring_init_def score_sample_def llr_def np_store_def
      predict_def sum_model_def count_model_def two_utterances_def two_scored_def)

text \<open>
  C1. Whenever the natural and the synthetic model return their log-likelihoods on every
  feature matrix that the scoring cell visits, the cell returns, and the score it has stored
  for each sample is the natural log-likelihood minus the synthetic one. The models and the
  feature matrices are values that the cell only reads: its state holds the two arrays,
  \<open>k\<close> and \<open>thr\<close>.
\<close>

theorem scoring_cell_scores:
  assumes "\<forall>m\<in>set ms. gn m = Inr (ll_nat m) \<and> gs m = Inr (ll_synt m)"
  shows "\<exists>st. scoring_cell gn gs ms = Inr st \<and>
              llr_gmm_score st = map (\<lambda>m. ll_nat m - ll_synt m) ms"
proof -
  have "\<exists>st. scoring_loop gn gs ms (scoring_init (length ms)) = Inr st"
    using assms by (intro scoring_loop_returns) (auto simp: scoring_init_def)
  then obtain st where st: "scoring_loop gn gs ms (scoring_init (length ms)) = Inr st"
    by blast
  note inv = scoring_loop_Inr [OF st]
  have len: "length (llr_gmm_score st) = length ms"
    using inv by (simp add: scoring_init_def)
  have "llr_gmm_score st ! i = ll_nat (ms ! i) - ll_synt (ms ! i)" if "i < length ms" for i
  proof -
    have "llr gn gs (ms ! i) = Inr (llr_gmm_score st ! i)"
      using inv that by (simp add: scoring_init_def)
    moreover have "gn (ms ! i) = Inr (ll_nat (ms ! i))" "gs (ms ! i) = Inr (ll_synt (ms ! i))"
      using assms that by auto
    ultimately show ?thesis by (simp add: llr_Inr_iff)
  qed
  then have "llr_gmm_score st = map (\<lambda>m. ll_nat m - ll_synt m) ms"
    using len by (simp add: list_eq_iff_nth_eq)
  with st show ?thesis by (auto simp: scoring_cell_def)
qed

theorem scoring_cell_scores_witness:
  "\<exists>st. scoring_cell sum_model count_model two_utterances = Inr st \<and>
        llr_gmm_score st = [3, - 3]"
  using scoring_cell_scores [where ms = two_utterances and gn = sum_model
      and ll_nat = "\<lambda>m. sum_list (concat m)" and gs = count_model
      and ll_synt = "\<lambda>m. real (length m)"]
  by (simp add: sum_model_def count_model_def) (simp add: two_utterances_def)

text \<open>
  C6. Exchanging the two models negates the score: if the score of a feature matrix under
  \<open>A\<close> against \<open>B\<close> is \<open>s\<close>, its score under \<open>B\<close> against \<open>A\<close> is \<open>- s\<close>; and if the
  scoring cell returns with \<open>A\<close> against \<open>B\<close>, it returns with \<open>B\<close> against \<open>A\<close> too, with
  every stored score negated.
\<close>

theorem llr_swap_negates:
  "(llr A B F = Inr s \<longrightarrow> llr B A F = Inr (- s)) \<and>
   (scoring_cell A B ms = Inr st \<longrightarrow>
      (\<exists>st'. scoring_cell B A ms = Inr st' \<and>
             llr_gmm_score st' = map uminus (llr_gmm_score st)))"
proof (intro conjI impI)
  show "llr B A F = Inr (- s)" if "llr A B F = Inr s"
    using that by (auto simp: llr_Inr_iff)
next
  assume "scoring_cell A B ms = Inr st"
  then have st: "scoring_loop A B ms (scoring_init (length ms)) = Inr st"
    by (simp add: scoring_cell_def)
  note inv = scoring_loop_Inr [OF st]
  have each: "llr A B (ms ! i) = Inr (llr_gmm_score st ! i)" if "i < length ms" for i
    using inv that by (simp add: scoring_init_def)
  have "\<forall>m\<in>set ms. (\<exists>a. B m = Inr a) \<and> (\<exists>b. A m = Inr b)"
  proof
    fix m assume "m \<in> set ms"
    then obtain i where "i < length ms" "ms ! i = m"
      by (auto simp: in_set_conv_nth)
    with each [of i] show "(\<exists>a. B m = Inr a) \<and> (\<exists>b. A m = Inr b)"
      by (auto simp: llr_Inr_iff)
  qed
  then have "\<exists>st'. scoring_loop B A ms (scoring_init (length ms)) = Inr st'"
    by (intro scoring_loop_returns) (auto simp: scoring_init_def)
  then obtain st' where st': "scoring_loop B A ms (scoring_init (length ms)) = Inr st'"
    by blast
  note inv' = scoring_loop_Inr [OF st']
  have "llr_gmm_score st' ! i = - (llr_gmm_score st ! i)" if "i < length ms" for i
  proof -
    have "llr B A (ms ! i) = Inr (llr_gmm_score st' ! i)"
      using inv' that by (simp add: scoring_init_def)
    with each [OF that] show ?thesis
      by (auto simp: llr_Inr_iff)
  qed
  moreover have "length (llr_gmm_score st') = length ms" "length (llr_gmm_score st) = length ms"
    using inv inv' by (simp_all add: scoring_init_def)
  ultimately have "llr_gmm_score st' = map uminus (llr_gmm_score st)"
    by (simp add: list_eq_iff_nth_eq)
  with st' show "\<exists>st'. scoring_cell B A ms = Inr st' \<and>
             llr_gmm_score st' = map uminus (llr_gmm_score st)"
    by (auto simp: scoring_cell_def)
qed

theorem llr_swap_negates_witness:
  "llr sum_model count_model [[3, 1]] = Inr 3 \<and> llr count_model sum_model [[3, 1]] = Inr (- 3) \<and>
   scoring_cell sum_model count_model two_utterances = Inr two_scored \<and>
   (\<exists>st'. scoring_cell count_model sum_model two_utterances = Inr st' \<and>
          llr_gmm_score st' = [- 3, 3])"
  using llr_swap_negates [where A = sum_model and B = count_model and F = "[[3, 1]]" and s = 3
      and ms = two_utterances and st = two_scored]
  by (simp add: two_cell) (simp add: llr_def sum_model_def count_model_def two_scored_def)

text \<open>
  C10. When the scoring cell returns, the prediction stored for each sample is 1 if the
  score stored for it is greater than 0, and 0 otherwise; and the loop started with any
  other value of \<open>thr\<close> in place of \<open>.5\<close> returns with the same predictions.
\<close>

theorem z_gmm_is_sign:
  assumes "scoring_cell gn gs ms = Inr st" and "i < length ms"
  shows "z_gmm st ! i = (if llr_gmm_score st ! i > 0 then 1 else 0) \<and>
         (\<exists>st'. scoring_loop gn gs ms ((scoring_init (length ms))\<lparr>thr := t\<rparr>) = Inr st' \<and>
                z_gmm st' = z_gmm st)"
proof
  from assms(1) have st: "scoring_loop gn gs ms (scoring_init (length ms)) = Inr st"
    by (simp add: scoring_cell_def)
  from scoring_loop_Inr [OF st] assms(2)
  show "z_gmm st ! i = (if llr_gmm_score st ! i > 0 then 1 else 0)"
    by (simp add: scoring_init_def predict_def)
  show "\<exists>st'. scoring_loop gn gs ms ((scoring_init (length ms))\<lparr>thr := t\<rparr>) = Inr st' \<and>
                z_gmm st' = z_gmm st"
    by (simp add: scoring_loop_thr st)
qed

theorem z_gmm_is_sign_witness:
  "scoring_cell sum_model count_model two_utterances = Inr two_scored \<and>
   (1::nat) < length two_utterances \<and>
   llr_gmm_score two_scored ! 1 = - 3 \<and> z_gmm two_scored ! 1 = 0 \<and>
   (\<exists>st'. scoring_loop sum_model count_model two_utterances
             ((scoring_init (length two_utterances))\<lparr>thr := 7\<rparr>) = Inr st' \<and>
          z_gmm st' = [1, 0])"
  using z_gmm_is_sign [where gn = sum_model and gs = count_model and ms = two_utterances
      and i = 1 and t = 7 and st = two_scored]
  by (simp add: two_cell) (simp add: two_utterances_def two_scored_def)

text \<open>
  C9, as the code has it. The score has no check of its own. It fails exactly when one of
  the two model calls fails, with that call's exception (the natural model is called first),
  and it returns exactly when both calls return, and then it returns the natural
  log-likelihood minus the synthetic one. Nothing is said about the feature matrix.
\<close>

theorem llr_fails_as_models_fail:
  "(llr gn gs F = Inl e \<longleftrightarrow> gn F = Inl e \<or> ((\<exists>a. gn F = Inr a) \<and> gs F = Inl e)) \<and>
   (llr gn gs F = Inr v \<longleftrightarrow> (\<exists>a b. gn F = Inr a \<and> gs F = Inr b \<and> v = a - b))"
  by (auto simp: llr_def split: sum.splits)

theorem llr_fails_as_models_fail_witness:
  "llr sum_model strict_model [] = Inl () \<and> llr strict_model count_model [[3, 1]] = Inr 3 \<and>
   llr strict_model count_model [[3, 1]] \<noteq> Inr 0"
  using llr_fails_as_models_fail [of sum_model strict_model "[]" "()"]
    llr_fails_as_models_fail [of strict_model count_model "[[3, 1]]" "()" 3]
    llr_fails_as_models_fail [of strict_model count_model "[[3, 1]]" "()" 0]
  by (simp add: sum_model_def strict_model_def count_model_def)

text \<open>
  C9 as stated fails: with models that accept every matrix, the score of the empty feature
  matrix is a number, the difference of what the two models return on it.
\<close>

theorem llr_accepts_empty_matrix: "llr offset_model flat_model [] = Inr 2"
  by (simp add: llr_def flat_model_def offset_model_def)

section \<open>The error rates\<close>

lemma z_of_eq_1 [simp]: "z_of x = 1 \<longleftrightarrow> x = ''human''"
  by (simp add: z_of_def)

lemma z_of_eq_0 [simp]: "z_of x = 0 \<longleftrightarrow> x \<noteq> ''human''"
  by (simp add: z_of_def)

text \<open>
  The array that the cell calls \<open>spoofed\<close> holds the scores of the human samples, and
  the array it calls \<open>humans\<close> those of all other samples.
\<close>

lemma select_1: "select 1 rows = labeled ''human'' rows"
  by (simp add: select_def labeled_def)

lemma select_0:
  assumes "\<forall>r\<in>set rows. source r = ''human'' \<or> source r = ''spoof''"
  shows "select 0 rows = labeled ''spoof'' rows"
proof -
  have "filter (\<lambda>r. z_of (source r) = 0) rows = filter (\<lambda>r. source r = ''spoof'') rows"
    using assms by (intro filter_cong) auto
  then show ?thesis by (simp add: select_def labeled_def)
qed


lemma fnr_estimate:
  "fnr (estimate t rows) =
     np_true_divide (100 * int (length (filter (\<lambda>x. x > t) (select 0 rows))))
       (int (length (select 0 rows)))"
  by (simp add: estimate_def Let_def)

lemma fpr_estimate:
  "fpr (estimate t rows) =
     np_true_divide (100 * int (length (filter (\<lambda>x. x \<le> t) (select 1 rows))))
       (int (length (select 1 rows)))"
  by (simp add: estimate_def Let_def)

lemma np_true_divide_nonempty:
  "xs \<noteq> [] \<Longrightarrow>
     np_true_divide (100 * int c) (int (length xs)) = Finite (100 * real c / real (length xs))"
  by (simp add: np_true_divide_def)

lemma example_select:
  "select 1 example_scores = [0.6, 0.4]" "select 0 example_scores = [- 0.3, 0.1]"
  "labeled ''human'' example_scores = [0.6, 0.4]"
  "labeled ''spoof'' example_scores = [- 0.3, 0.1]"
  by (simp_all add: select_def labeled_def example_scores_def)

text \<open>
  C2, as the code has it. For a table whose sources are \<open>human\<close> or \<open>spoof\<close>, with at least
  one of each, and every threshold \<open>t\<close>: the cell's \<open>fnr\<close> is 100 times the fraction of
  spoof samples whose score is greater than \<open>t\<close> (the specification's \<open>fpr\<close>), and its \<open>fpr\<close>
  is 100 times the fraction of human samples whose score is at most \<open>t\<close> (the
  specification's \<open>fnr\<close>). The labels are \<open>human = 1\<close>, \<open>spoof = 0\<close>.
\<close>

theorem estimate_swaps_spec_rates:
  assumes "\<forall>r\<in>set rows. source r = ''human'' \<or> source r = ''spoof''"
    and "labeled ''human'' rows \<noteq> []" and "labeled ''spoof'' rows \<noteq> []"
  shows "fnr (estimate t rows) = Finite (spec_fpr t (labeled ''spoof'' rows)) \<and>
         fpr (estimate t rows) = Finite (spec_fnr t (labeled ''human'' rows))"
  using assms
  by (simp add: fnr_estimate fpr_estimate select_1 select_0 np_true_divide_nonempty
      spec_fnr_def spec_fpr_def)

theorem estimate_swaps_spec_rates_witness:
  "labeled ''human'' example_scores \<noteq> [] \<and> labeled ''spoof'' example_scores \<noteq> [] \<and>
   fnr (estimate 0 example_scores) = Finite 50 \<and> fpr (estimate 0 example_scores) = Finite 0"
  using estimate_swaps_spec_rates [of example_scores 0]
  by (simp add: example_select spec_fnr_def spec_fpr_def) (simp add: example_scores_def)

text \<open>
  C2 as stated fails on the example of the specification at threshold 0, whether the human
  class is read as the samples of source \<open>human\<close> or as the samples labelled 0.
\<close>

theorem estimate_not_spec_rates:
  "\<not> (fnr (estimate 0 example_scores) = Finite (spec_fnr 0 (labeled ''human'' example_scores)) \<and>
      fpr (estimate 0 example_scores) = Finite (spec_fpr 0 (labeled ''spoof'' example_scores))) \<and>
   \<not> (fnr (estimate 0 example_scores) = Finite (spec_fnr 0 (select 0 example_scores)) \<and>
      fpr (estimate 0 example_scores) = Finite (spec_fpr 0 (select 1 example_scores)))"
  by (simp add: fnr_estimate fpr_estimate example_select spec_fnr_def spec_fpr_def
      np_true_divide_def)

text \<open>
  C8, as the code has it. On the scores \<open>{h1:0.6, h2:0.4, s1:-0.3, s2:0.1}\<close> with human
  samples \<open>h1, h2\<close> and spoof samples \<open>s1, s2\<close>, the cell's rates at threshold 0 are
  \<open>fnr = 50\<close> and \<open>fpr = 0\<close>.
\<close>

theorem example_rates_are_50_and_0:
  "estimate 0 example_scores = \<lparr>fnr = Finite 50, fpr = Finite 0\<rparr>"
  by (simp add: estimate_def example_select np_true_divide_def)

text \<open>C8 as stated (\<open>fnr = 0\<close>, \<open>fpr = 50\<close>) fails.\<close>

theorem example_rates_differ_from_spec:
  "estimate 0 example_scores \<noteq> \<lparr>fnr = Finite 0, fpr = Finite 50\<rparr>"
  by (simp add: estimate_def example_select np_true_divide_def)

lemma count_above_antimono:
  "t1 \<le> t2 \<Longrightarrow> length (filter (\<lambda>x. x > t2) xs) \<le> length (filter (\<lambda>x. x > (t1::real)) xs)"
  by (induction xs) auto

lemma count_upto_mono:
  "t1 \<le> t2 \<Longrightarrow> length (filter (\<lambda>x. x \<le> t1) xs) \<le> length (filter (\<lambda>x. x \<le> (t2::real)) xs)"
  by (induction xs) auto

text \<open>
  C7, as the code has it. For a table with at least one human sample and at least one other
  sample, and thresholds \<open>t1 \<le> t2\<close>: the cell's \<open>fnr\<close> at \<open>t2\<close> is at most its \<open>fnr\<close> at
  \<open>t1\<close>, and its \<open>fpr\<close> at \<open>t1\<close> is at most its \<open>fpr\<close> at \<open>t2\<close>. Raising the threshold
  cannot increase \<open>fnr\<close> and cannot decrease \<open>fpr\<close>.
\<close>

theorem rates_monotone_reversed:
  assumes "t1 \<le> t2" and "\<exists>r\<in>set rows. source r = ''human''"
    and "\<exists>r\<in>set rows. source r \<noteq> ''human''"
  shows "np_le (fnr (estimate t2 rows)) (fnr (estimate t1 rows)) \<and>
         np_le (fpr (estimate t1 rows)) (fpr (estimate t2 rows))"
proof -
  have ne: "select 1 rows \<noteq> []" "select 0 rows \<noteq> []"
    using assms(2,3) by (auto simp: select_def filter_empty_conv)
  have "real (length (filter (\<lambda>x. x > t2) (select 0 rows)))
          \<le> real (length (filter (\<lambda>x. x > t1) (select 0 rows)))"
    using count_above_antimono [OF assms(1)] by simp
  moreover have "real (length (filter (\<lambda>x. x \<le> t1) (select 1 rows)))
          \<le> real (length (filter (\<lambda>x. x \<le> t2) (select 1 rows)))"
    using count_upto_mono [OF assms(1)] by simp
  ultimately show ?thesis
    using ne by (simp add: fnr_estimate fpr_estimate np_true_divide_nonempty divide_right_mono)
qed

theorem rates_monotone_reversed_witness:
  "(0::real) \<le> 0.5 \<and>
   np_le (fnr (estimate 0.5 example_scores)) (fnr (estimate 0 example_scores)) \<and>
   np_le (fpr (estimate 0 example_scores)) (fpr (estimate 0.5 example_scores))"
  using rates_monotone_reversed [of 0 "0.5" example_scores]
  by (simp add: example_scores_def)

text \<open>
  C7 as stated fails on the example between the thresholds 0 and 0.5: \<open>fnr\<close> falls from 50
  to 0 and \<open>fpr\<close> rises from 0 to 50.
\<close>

theorem rates_not_monotone_as_specified:
  "\<not> ((0::real) \<le> 0.5 \<longrightarrow>
        np_le (fnr (estimate 0 example_scores)) (fnr (estimate 0.5 example_scores)) \<and>
        np_le (fpr (estimate 0.5 example_scores)) (fpr (estimate 0 example_scores)))"
  by (simp add: fnr_estimate fpr_estimate example_select np_true_divide_def)

section \<open>Empty classes\<close>

lemma np_nan_absorbs [simp]:
  "np_add x NaN = NaN" "np_add NaN x = NaN" "np_sub x NaN = NaN" "np_sub NaN x = NaN"
  "\<not> np_lt NaN x" "\<not> np_lt x NaN"
  by (cases x; simp add: np_sub_def)+




section \<open>The EER cell in float64\<close>

text \<open>
  How \<open>f64\<close> is evaluated: for a positive \<open>x\<close> with \<open>2^e \<le> x < 2^(e+1)\<close> the spacing is
  \<open>2^(e-52)\<close>, and \<open>x\<close> over the spacing is rounded to an integer.
\<close>

lemma floor_log2_eq:
  assumes "0 < x" "2 powi e \<le> x" "x < 2 powi (e + 1)"
  shows "\<lfloor>log 2 x\<rfloor> = e"
proof -
  have "(2::real) powr real_of_int e = 2 powi e"
    by (simp add: powr_real_of_int')
  moreover have "(2::real) powr (real_of_int e + 1) = 2 powi (e + 1)"
    using powr_real_of_int' [of "2::real" "e + 1"] by simp
  ultimately show ?thesis
    using assms by (subst floor_log_eq_powr_iff) auto
qed

lemma f64_normal:
  assumes "0 < x" "2 powi e \<le> x" "x < 2 powi (e + 1)" "- 1022 \<le> e"
    and "round_half_even (x / 2 powi (e - 52)) = n"
    and "of_int n * 2 powi (e - 52) < (2::real) ^ 1024"
  shows "f64 x = Finite (of_int n * 2 powi (e - 52))"
proof -
  have "\<lfloor>log 2 \<bar>x\<bar>\<rfloor> = e"
    using assms(1-3) by (simp add: floor_log2_eq)
  then show ?thesis
    using assms by (simp add: f64_def Let_def max_def)
qed

lemma f64_minus: "f64 (- x) = np_neg (f64 x)"
  by (simp add: f64_def Let_def sgn_if)

lemma f64_zero: "f64 0 = Finite 0"
  by (simp add: f64_def)

text \<open>Numbers with a short binary expansion are float64 values: rounding leaves them.\<close>

lemma f64_50: "f64 50 = Finite 50"
  by (subst f64_normal [where e = 5 and n = 7036874417766400])
    (simp_all add: round_half_even_def power_int_minus)

lemma f64_25: "f64 25 = Finite 25"
  by (subst f64_normal [where e = 4 and n = 7036874417766400])
    (simp_all add: round_half_even_def power_int_minus)

text \<open>On the example of the specification the cell at threshold 0 prints \<open>EER ~ 25.0\<close>.\<close>

lemma example_report:
  "eer_at 0 example_scores =
     \<lparr>shown_fnr = Finite 50, shown_fpr = Finite 0, shown_diff = Finite 50, exact = False,
      eer = Finite 25\<rparr>"
  using f64_50 f64_25
  by (simp add: eer_at_def Let_def estimate_def example_select np_true_divide_def np_sub_def
      f64_zero)

text \<open>
  The rates \<open>100/112\<close> and \<open>200/175\<close> are not float64 values. The nearest float64 values
  differ by \<open>1/4 - 2^-53\<close>.
\<close>

lemma f64_25_28: "f64 (25 / 28) = Finite (8042142191733029 / 2 ^ 53)"
  by (subst f64_normal [where e = "- 1" and n = 8042142191733029])
    (simp_all add: round_half_even_def power_int_minus)

lemma f64_8_7: "f64 (8 / 7) = Finite (5146971002709138 / 2 ^ 52)"
  by (subst f64_normal [where e = 0 and n = 5146971002709138])
    (simp_all add: round_half_even_def power_int_minus)

lemma f64_below_quarter:
  "f64 (2251799813685247 / 2 ^ 53) = Finite (2251799813685247 / 2 ^ 53)"
  by (subst f64_normal [where e = "- 3" and n = 9007199254740988])
    (simp_all add: round_half_even_def power_int_minus)

lemma quarter_apart_rates:
  "estimate 0 quarter_apart = \<lparr>fnr = Finite (25 / 28), fpr = Finite (8 / 7)\<rparr>"
  by (simp add: estimate_def select_def quarter_apart_def np_true_divide_def z_of_def)

text \<open>
  So on a table whose exact rates are a quarter apart, which is not less than \<open>.25\<close>, the
  cell computes the difference \<open>-0.2499999999999999\<close> and prints the value as \<open>EER =\<close>.
\<close>

lemma quarter_apart_exact:
  "np_sub (fnr (estimate 0 quarter_apart)) (fpr (estimate 0 quarter_apart)) = Finite (- (1 / 4)) \<and>
   shown_diff (eer_at 0 quarter_apart) = Finite (- (2251799813685247 / 2 ^ 53)) \<and>
   exact (eer_at 0 quarter_apart)"
proof -
  have d: "np_sub (f64 (25 / 28)) (f64 (8 / 7)) = Finite (- (2251799813685247 / 2 ^ 53))"
    using f64_25_28 f64_8_7 by (simp add: np_sub_def)
  have r: "np_round (Finite (- (2251799813685247 / 2 ^ 53)))
             = Finite (- (2251799813685247 / 2 ^ 53))"
    using f64_below_quarter by (simp add: f64_minus)
  show ?thesis
    using d r by (simp add: eer_at_def Let_def quarter_apart_rates np_sub_def)
qed

section \<open>The ROC AUC of the scoring cell\<close>

lemma zip_labels:
  "map snd (filter (\<lambda>ys. fst ys = v) (zip (map f rows) (map g rows)))
     = map g (filter (\<lambda>r. f r = v) rows)"
  by (induction rows) auto

lemma sum_list_constant:
  "\<forall>x\<in>set xs. f x = (c::real) \<Longrightarrow> sum_list (map f xs) = real (length xs) * c"
  by (induction xs) (auto simp: algebra_simps)

lemma sum_rank_credit_all_above:
  assumes "\<forall>p\<in>set pos. \<forall>n\<in>set neg. n < p"
  shows "(\<Sum>p\<leftarrow>pos. \<Sum>n\<leftarrow>neg. rank_credit p n) = real (length pos) * real (length neg)"
proof -
  have "(\<Sum>n\<leftarrow>neg. rank_credit p n) = real (length neg)" if "p \<in> set pos" for p
  proof -
    have "\<forall>n\<in>set neg. rank_credit p n = 1"
      using assms that by (simp add: rank_credit_def)
    from sum_list_constant [OF this] show ?thesis by simp
  qed
  then show ?thesis
    using sum_list_constant [of pos "\<lambda>p. \<Sum>n\<leftarrow>neg. rank_credit p n" "real (length neg)"]
    by simp
qed

lemma roc_auc_score_separated:
  assumes "pos = map snd (filter (\<lambda>ys. fst ys = 1) (zip y_true y_score))"
    and "neg = map snd (filter (\<lambda>ys. fst ys = 0) (zip y_true y_score))"
    and "pos \<noteq> []" and "neg \<noteq> []" and "\<forall>p\<in>set pos. \<forall>n\<in>set neg. n < p"
  shows "roc_auc_score y_true y_score = Some 1"
  using assms(3,4) sum_rank_credit_all_above [OF assms(5)]
  unfolding roc_auc_score_def Let_def assms(1,2) [symmetric]
  by simp

text \<open>
  C5, as the code has it. The cell's ROC AUC is the rank-based ROC AUC of the two label
  classes computed from the predictions \<open>z_gmm\<close>, that is from \<open>int(score > 0)\<close>, not from
  the scores. For every table with a human sample and another sample, in which every human
  score is greater than 0 and every other score is at most 0, it is 1.
\<close>

theorem roc_auc_of_predictions:
  assumes "\<exists>r\<in>set rows. source r = ''human''" and "\<exists>r\<in>set rows. source r \<noteq> ''human''"
    and "\<forall>r\<in>set rows. source r = ''human'' \<longrightarrow> score_gmm r > 0"
    and "\<forall>r\<in>set rows. source r \<noteq> ''human'' \<longrightarrow> score_gmm r \<le> 0"
  shows "roc_auc rows = Some 1"
proof -
  let ?pos = "map (\<lambda>r. predict (score_gmm r)) (filter (\<lambda>r. z_of (source r) = 1) rows)"
  let ?neg = "map (\<lambda>r. predict (score_gmm r)) (filter (\<lambda>r. z_of (source r) = 0) rows)"
  have "?pos \<noteq> []" "?neg \<noteq> []"
    using assms(1,2) by (auto simp: filter_empty_conv)
  moreover have "\<forall>p\<in>set ?pos. \<forall>n\<in>set ?neg. n < p"
    using assms(3,4) by (auto simp: predict_def)
  ultimately show ?thesis
    unfolding roc_auc_def
    by (intro roc_auc_score_separated [where pos = ?pos and neg = ?neg])
      (simp_all add: zip_labels)
qed

theorem roc_auc_of_predictions_witness:
  "(\<exists>r\<in>set separated_at_zero. source r = ''human'') \<and>
   (\<exists>r\<in>set separated_at_zero. source r \<noteq> ''human'') \<and>
   roc_auc separated_at_zero = Some 1"
  using roc_auc_of_predictions [of separated_at_zero]
  by (simp add: separated_at_zero_def)

text \<open>
  C5 as stated fails: when every human score is above every spoof score and all scores are
  negative, the rank-based ROC AUC of the scores is 1, and the cell's ROC AUC is 1/2.
\<close>

theorem roc_auc_ignores_scores:
  "spec_roc_auc separated_below_zero = Some 1 \<and>
   roc_auc separated_below_zero = Some (1 / 2)"
  by (simp add: roc_auc_def spec_roc_auc_def roc_auc_score_def separated_below_zero_def
      predict_def rank_credit_def z_of_def)

end
